theory Spec2Isabelle
  imports Complex_Main "HOL-Library.Multiset" "HOL-Library.Product_Lexorder"
begin

section \<open>The data model of the time tracker\<close>

text \<open>
  The backend keeps its data in PostgreSQL and reaches it through the model classes
  \<open>TimeEntryModel\<close> (models/task.model.ts), \<open>TimesheetModel\<close> and \<open>InvoiceModel\<close>
  (models/timesheet.model.ts). The tables are modelled as lists of rows in insertion
  order, with the columns the model classes' statements read or write. The columns are
  those the statements name (\<open>time_entries.timesheet_id\<close>, \<open>invoice_items.time_entry_ids\<close>,
  \<open>invoices.total\<close>, the table \<open>timesheets\<close>); db/schema.sql describes an older layout that
  lacks them. Columns that no modelled statement reads (names, e-mail addresses,
  \<open>updated_at\<close>) are left out.

  A JavaScript \<open>number\<close> and an SQL \<open>DECIMAL\<close> are taken as exact rationals: neither the
  rounding of IEEE doubles nor the scale of a column is modelled. A point in time is a
  year, a month (1 to 12) and a position inside the month.
\<close>

type_synonym number = rat

datatype timestamp = Timestamp (year: nat) (month: nat) (tick: nat)


datatype role = Admin | User | Client

datatype entry_status = Draft | Submitted | Approved | Rejected | Billed

datatype timesheet_status = TsDraft | TsSubmitted | TsApproved | TsRejected

datatype invoice_status = InvDraft | Sent | Paid | Overdue | Cancelled

record user =
  u_id :: int
  u_role :: role

record project =
  p_id :: int
  p_client_id :: int
  hourly_rate :: number

record task =
  t_id :: int
  t_project_id :: int

record time_entry =
  te_id :: int
  te_user_id :: int
  te_task_id :: int
  start_time :: timestamp
  end_time :: "timestamp option"
  duration_minutes :: "int option"
  te_description :: "string option"
  is_billable :: bool
  te_status :: entry_status
  timesheet_id :: "int option"

record timesheet =
  ts_id :: int
  ts_user_id :: int
  start_date :: timestamp
  end_date :: timestamp
  ts_status :: timesheet_status
  ts_notes :: "string option"
  approved_by :: "int option"
  approved_at :: "timestamp option"

record invoice =
  inv_id :: int
  invoice_number :: string
  client_id :: int
  issue_date :: timestamp
  due_date :: timestamp
  inv_status :: invoice_status
  subtotal :: number
  tax_rate :: number
  tax_amount :: number
  total :: number
  inv_notes :: "string option"
  created_at :: timestamp
  paid_at :: "timestamp option"

record invoice_item =
  item_id :: int
  invoice_id :: int
  item_description :: string
  item_quantity :: number
  unit_price :: number
  amount :: number
  time_entry_ids :: "int list"

record db =
  users :: "user list"
  projects :: "project list"
  tasks :: "task list"
  time_entries :: "time_entry list"
  timesheets :: "timesheet list"
  invoices :: "invoice list"
  invoice_items :: "invoice_item list"

section \<open>Statements, transactions and failures\<close>

text \<open>
  Every model method is a sequence of awaited statements, each of which may throw. The
  world a method runs in holds the committed tables, the working copy of the transaction
  that is open on the checked-out client (if any), the \<open>SERIAL\<close> sequences of the
  invoice tables (PostgreSQL does not roll a sequence back; an insert takes its id before
  the statement can be refused) and the outcome of the
  statements to come: \<open>True\<close> where the database refuses the statement (a violated
  constraint, a lost connection), nothing left where every statement is answered.

  \<open>BEGIN\<close> copies the committed tables, a statement on the client works on the copy,
  \<open>COMMIT\<close> installs the copy and \<open>ROLLBACK\<close> drops it. \<open>pool.query\<close> runs one
  statement on its own. A refused statement changes nothing and throws.
  \<open>client.release()\<close> has no effect on the tables and is left out.
\<close>

datatype error = DbError

record world =
  tables :: db
  txn :: "db option"
  invoice_seq :: int
  invoice_item_seq :: int
  faults :: "bool list"

type_synonym 'a io = "world \<Rightarrow> (error + 'a) \<times> world"

definition return_io :: "'a \<Rightarrow> 'a io" where
  "return_io x = (\<lambda>w. (Inr x, w))"

definition throw :: "error \<Rightarrow> 'a io" where
  "throw e = (\<lambda>w. (Inl e, w))"

definition await :: "'a io \<Rightarrow> ('a \<Rightarrow> 'b io) \<Rightarrow> 'b io" where
  "await m f = (\<lambda>w. case m w of (Inl e, w') \<Rightarrow> (Inl e, w') | (Inr x, w') \<Rightarrow> f x w')"

definition try_catch :: "'a io \<Rightarrow> (error \<Rightarrow> 'a io) \<Rightarrow> 'a io" where
  "try_catch m h = (\<lambda>w. case m w of (Inl e, w') \<Rightarrow> h e w' | (Inr x, w') \<Rightarrow> (Inr x, w'))"

definition next_fault :: "world \<Rightarrow> bool \<times> world" where
  "next_fault w =
     (case faults w of [] \<Rightarrow> (False, w) | b # bs \<Rightarrow> (b, w\<lparr>faults := bs\<rparr>))"

definition pool_connect :: "unit io" where
  "pool_connect = (\<lambda>w. case next_fault w of
       (True, w') \<Rightarrow> (Inl DbError, w')
     | (False, w') \<Rightarrow> (Inr (), w'))"

definition pool_query :: "(db \<Rightarrow> 'a \<times> db) \<Rightarrow> 'a io" where
  "pool_query stmt = (\<lambda>w. case next_fault w of
       (True, w') \<Rightarrow> (Inl DbError, w')
     | (False, w') \<Rightarrow> (case stmt (tables w') of (r, d) \<Rightarrow> (Inr r, w'\<lparr>tables := d\<rparr>)))"

definition client_query :: "(db \<Rightarrow> 'a \<times> db) \<Rightarrow> 'a io" where
  "client_query stmt = (\<lambda>w. case next_fault w of
       (True, w') \<Rightarrow> (Inl DbError, w')
     | (False, w') \<Rightarrow>
         (case txn w' of
            Some t \<Rightarrow> (case stmt t of (r, d) \<Rightarrow> (Inr r, w'\<lparr>txn := Some d\<rparr>))
          | None \<Rightarrow> (case stmt (tables w') of (r, d) \<Rightarrow> (Inr r, w'\<lparr>tables := d\<rparr>))))"

definition sql_begin :: "unit io" where
  "sql_begin = (\<lambda>w. case next_fault w of
       (True, w') \<Rightarrow> (Inl DbError, w')
     | (False, w') \<Rightarrow> (Inr (), w'\<lparr>txn := Some (tables w')\<rparr>))"

definition sql_commit :: "unit io" where
  "sql_commit = (\<lambda>w. case next_fault w of
       (True, w') \<Rightarrow> (Inl DbError, w')
     | (False, w') \<Rightarrow>
         (case txn w' of
            Some t \<Rightarrow> (Inr (), w'\<lparr>tables := t, txn := None\<rparr>)
          | None \<Rightarrow> (Inr (), w')))"

definition sql_rollback :: "unit io" where
  "sql_rollback = (\<lambda>w. (Inr (), w\<lparr>txn := None\<rparr>))"

section \<open>InvoiceModel\<close>

record item_input =
  description :: string
  quantity :: number
  unitPrice :: number
  timeEntryIds :: "int list"

record invoice_input =
  clientId :: int
  issueDate :: timestamp
  dueDate :: timestamp
  taxRate :: number
  inp_notes :: "string option"
  items :: "item_input list"

text \<open>\<open>String(n)\<close> for a non-negative integer, and \<open>padStart\<close> with a one-character pad.\<close>

definition digit_char :: "nat \<Rightarrow> char" where
  "digit_char d = ''0123456789'' ! d"

fun toString :: "nat \<Rightarrow> string" where
  "toString n = (if n < 10 then [digit_char n] else toString (n div 10) @ [digit_char (n mod 10)])"

declare toString.simps [simp del]

definition padStart :: "nat \<Rightarrow> char \<Rightarrow> string \<Rightarrow> string" where
  "padStart n c s = replicate (n - length s) c @ s"

text \<open>
  \<open>SELECT COUNT(*) FROM invoices WHERE EXTRACT(YEAR FROM created_at) = $1 AND
  EXTRACT(MONTH FROM created_at) = $2\<close>
\<close>

definition count_invoices :: "nat \<Rightarrow> nat \<Rightarrow> db \<Rightarrow> nat \<times> db" where
  "count_invoices y m d =
     (length (filter (\<lambda>i. year (created_at i) = y \<and> month (created_at i) = m) (invoices d)), d)"

definition generateInvoiceNumber :: "timestamp \<Rightarrow> string io" where
  "generateInvoiceNumber now =
     (let y = year now;
          m = padStart 2 CHR ''0'' (toString (month now))
      in await (pool_query (count_invoices y (month now))) (\<lambda>c.
         let count = c + 1
         in return_io (''INV-'' @ toString y @ m @ ''-'' @ padStart 4 CHR ''0'' (toString count))))"

text \<open>
  \<open>INSERT INTO invoices (...) VALUES (...) RETURNING *\<close>: the row gets the next value of
  the sequence as its id and the statement's time as \<open>created_at\<close>.
\<close>

definition insert_invoice :: "timestamp \<Rightarrow> string \<Rightarrow> invoice_input \<Rightarrow> number \<Rightarrow> number \<Rightarrow> number \<Rightarrow> invoice io" where
  "insert_invoice now invoiceNumber inp sub taxAmount tot = (\<lambda>w.
     let row = \<lparr>inv_id = invoice_seq w, invoice_number = invoiceNumber, client_id = clientId inp,
                issue_date = issueDate inp, due_date = dueDate inp, inv_status = InvDraft,
                subtotal = sub, tax_rate = taxRate inp, tax_amount = taxAmount, total = tot,
                inv_notes = inp_notes inp, created_at = now, paid_at = None\<rparr>
     in client_query (\<lambda>d. (row, d\<lparr>invoices := invoices d @ [row]\<rparr>))
          (w\<lparr>invoice_seq := invoice_seq w + 1\<rparr>))"

text \<open>\<open>INSERT INTO invoice_items (...) VALUES ($1, $2, $3, $4, $5, $6) RETURNING *\<close>\<close>

definition insert_item :: "int \<Rightarrow> item_input \<Rightarrow> number \<Rightarrow> invoice_item io" where
  "insert_item invoiceId item itemAmount = (\<lambda>w.
     let row = \<lparr>item_id = invoice_item_seq w, invoice_id = invoiceId,
                item_description = description item, item_quantity = quantity item,
                unit_price = unitPrice item, amount = itemAmount,
                time_entry_ids = timeEntryIds item\<rparr>
     in client_query (\<lambda>d. (row, d\<lparr>invoice_items := invoice_items d @ [row]\<rparr>))
          (w\<lparr>invoice_item_seq := invoice_item_seq w + 1\<rparr>))"

text \<open>\<open>UPDATE time_entries SET status = 'billed' WHERE id = ANY($1)\<close>\<close>

definition mark_billed :: "int list \<Rightarrow> db \<Rightarrow> unit \<times> db" where
  "mark_billed ids d =
     ((), d\<lparr>time_entries :=
             map (\<lambda>e. if te_id e \<in> set ids then e\<lparr>te_status := Billed\<rparr> else e) (time_entries d)\<rparr>)"

text \<open>The loop \<open>for (const item of items)\<close> of \<open>InvoiceModel.create\<close>.\<close>

fun add_items :: "int \<Rightarrow> item_input list \<Rightarrow> unit io" where
  "add_items invoiceId [] = return_io ()"
| "add_items invoiceId (item # rest) =
     (let itemAmount = quantity item * unitPrice item
      in await (insert_item invoiceId item itemAmount) (\<lambda>_.
         await (if timeEntryIds item \<noteq> []
                then client_query (mark_billed (timeEntryIds item))
                else return_io ()) (\<lambda>_.
         add_items invoiceId rest)))"

text \<open>
  \<open>InvoiceModel.findById\<close>: the invoice joined with its client's user row, then its items
  ordered by id; \<open>null\<close> (here \<open>None\<close>) when the join is empty.
\<close>

type_synonym full_invoice = "invoice \<times> user \<times> invoice_item list"

definition select_invoice :: "int \<Rightarrow> db \<Rightarrow> (invoice \<times> user) list \<times> db" where
  "select_invoice i d =
     (concat (map (\<lambda>invoice. map (\<lambda>u. (invoice, u)) (filter (\<lambda>u. client_id invoice = u_id u) (users d)))
        (filter (\<lambda>invoice. inv_id invoice = i) (invoices d))), d)"

definition select_items :: "int \<Rightarrow> db \<Rightarrow> invoice_item list \<times> db" where
  "select_items i d = (sort_key item_id (filter (\<lambda>it. invoice_id it = i) (invoice_items d)), d)"

definition Invoice_findById :: "int \<Rightarrow> full_invoice option io" where
  "Invoice_findById i =
     await pool_connect (\<lambda>_.
     await (client_query (select_invoice i)) (\<lambda>invoiceResult.
     case invoiceResult of
       [] \<Rightarrow> return_io None
     | (invoice, u) # _ \<Rightarrow>
         await (client_query (select_items i)) (\<lambda>itemsResult.
         return_io (Some (invoice, u, itemsResult)))))"

text \<open>
  \<open>InvoiceModel.create\<close>. The number is generated and the client checked out before the
  \<open>try\<close>; \<open>create_try\<close> is the \<open>try\<close> block, from \<open>BEGIN\<close> to the final
  \<open>findById\<close>; the \<open>catch\<close> rolls back and rethrows. \<open>fullInvoice!\<close> passes a
  \<open>null\<close> on.
\<close>

definition create_try :: "timestamp \<Rightarrow> string \<Rightarrow> invoice_input \<Rightarrow> number \<Rightarrow> number \<Rightarrow> number \<Rightarrow> full_invoice option io" where
  "create_try now invoiceNumber invoiceData sub taxAmount tot =
     await sql_begin (\<lambda>_.
     await (insert_invoice now invoiceNumber invoiceData sub taxAmount tot) (\<lambda>invoice.
     await (add_items (inv_id invoice) (items invoiceData)) (\<lambda>_.
     await sql_commit (\<lambda>_.
     Invoice_findById (inv_id invoice)))))"

definition Invoice_create :: "timestamp \<Rightarrow> invoice_input \<Rightarrow> full_invoice option io" where
  "Invoice_create now invoiceData =
     (let sub = foldl (\<lambda>sum item. sum + quantity item * unitPrice item) 0 (items invoiceData);
          taxAmount = sub * (taxRate invoiceData / 100);
          tot = sub + taxAmount
      in await (generateInvoiceNumber now) (\<lambda>invoiceNumber.
         await pool_connect (\<lambda>_.
         try_catch (create_try now invoiceNumber invoiceData sub taxAmount tot)
           (\<lambda>e. await sql_rollback (\<lambda>_. throw e)))))"









section \<open>TimesheetModel\<close>

text \<open>
  \<open>TimesheetModel.findById\<close>: the timesheet with the time entries attached to it
  (\<open>json_agg\<close> over the left join), \<open>null\<close> when there is none.
\<close>

type_synonym full_timesheet = "timesheet \<times> time_entry list"

definition select_timesheet :: "int \<Rightarrow> db \<Rightarrow> full_timesheet list \<times> db" where
  "select_timesheet i d =
     (map (\<lambda>t. (t, filter (\<lambda>te. timesheet_id te = Some (ts_id t)) (time_entries d)))
        (filter (\<lambda>t. ts_id t = i) (timesheets d)), d)"

definition Timesheet_findById :: "int \<Rightarrow> full_timesheet option io" where
  "Timesheet_findById i =
     await (pool_query (select_timesheet i)) (\<lambda>rows.
     return_io (case rows of [] \<Rightarrow> None | r # _ \<Rightarrow> Some r))"

text \<open>
  \<open>TimesheetModel.updateStatus\<close>. The first statement is
  \<open>UPDATE timesheets SET status = $1, notes = COALESCE($2, notes), approved_by = $3,
  approved_at = CASE WHEN $1 = 'approved' THEN CURRENT_TIMESTAMP ELSE approved_at END
  WHERE id = $4 RETURNING *\<close>, the second
  \<open>UPDATE time_entries SET status = $1 WHERE timesheet_id = $2\<close>.
\<close>

definition set_timesheet_status :: "timestamp \<Rightarrow> timesheet_status \<Rightarrow> string option \<Rightarrow> int \<Rightarrow> int \<Rightarrow> db \<Rightarrow> timesheet list \<times> db" where
  "set_timesheet_status now status notes approvedById i d =
     (let upd = (\<lambda>t. t\<lparr>ts_status := status,
                         ts_notes := (case notes of Some n \<Rightarrow> Some n | None \<Rightarrow> ts_notes t),
                         approved_by := Some approvedById,
                         approved_at := (if status = TsApproved then Some now else approved_at t)\<rparr>)
      in (map upd (filter (\<lambda>t. ts_id t = i) (timesheets d)),
          d\<lparr>timesheets := map (\<lambda>t. if ts_id t = i then upd t else t) (timesheets d)\<rparr>))"

definition set_entries_status :: "entry_status \<Rightarrow> int \<Rightarrow> db \<Rightarrow> unit \<times> db" where
  "set_entries_status entryStatus i d =
     ((), d\<lparr>time_entries :=
             map (\<lambda>te. if timesheet_id te = Some i then te\<lparr>te_status := entryStatus\<rparr> else te)
               (time_entries d)\<rparr>)"

definition updateStatus_try :: "timestamp \<Rightarrow> int \<Rightarrow> timesheet_status \<Rightarrow> int \<Rightarrow> string option \<Rightarrow> timesheet option io" where
  "updateStatus_try now i status approvedById notes =
     await sql_begin (\<lambda>_.
     await (client_query (set_timesheet_status now status notes approvedById i)) (\<lambda>updateResult.
     case updateResult of
       [] \<Rightarrow> await sql_rollback (\<lambda>_. return_io None)
     | timesheet # _ \<Rightarrow>
         await (if status = TsApproved \<or> status = TsRejected
                then let entryStatus = (if status = TsApproved then Approved else Rejected)
                     in client_query (set_entries_status entryStatus i)
                else return_io ()) (\<lambda>_.
         await sql_commit (\<lambda>_.
         return_io (Some timesheet)))))"

definition Timesheet_updateStatus :: "timestamp \<Rightarrow> int \<Rightarrow> timesheet_status \<Rightarrow> int \<Rightarrow> string option \<Rightarrow> timesheet option io" where
  "Timesheet_updateStatus now i status approvedById notes =
     await pool_connect (\<lambda>_.
     try_catch (updateStatus_try now i status approvedById notes)
       (\<lambda>e. await sql_rollback (\<lambda>_. throw e)))"

text \<open>
  \<open>TimesheetModel.addTimeEntries\<close>:
  \<open>UPDATE time_entries SET timesheet_id = $1, status = 'submitted'
  WHERE id = ANY($2::int[]) AND timesheet_id IS NULL RETURNING *\<close>, and
  \<open>TimesheetModel.removeTimeEntries\<close>:
  \<open>UPDATE time_entries SET timesheet_id = NULL, status = 'draft'
  WHERE id = ANY($1::int[]) AND timesheet_id = $2 RETURNING *\<close>.
  Both answer whether a row was changed, and \<open>true\<close> at once for an empty list.
\<close>

definition attach_entries :: "int \<Rightarrow> int list \<Rightarrow> db \<Rightarrow> time_entry list \<times> db" where
  "attach_entries timesheetId entryIds d =
     (let hit = (\<lambda>te. te_id te \<in> set entryIds \<and> timesheet_id te = None);
          upd = (\<lambda>te. te\<lparr>timesheet_id := Some timesheetId, te_status := Submitted\<rparr>)
      in (map upd (filter hit (time_entries d)),
          d\<lparr>time_entries := map (\<lambda>te. if hit te then upd te else te) (time_entries d)\<rparr>))"

definition addTimeEntries :: "int \<Rightarrow> int list \<Rightarrow> bool io" where
  "addTimeEntries timesheetId entryIds =
     (if length entryIds = 0 then return_io True
      else await (pool_query (attach_entries timesheetId entryIds)) (\<lambda>result.
           return_io (length result > 0)))"

definition detach_entries :: "int \<Rightarrow> int list \<Rightarrow> db \<Rightarrow> time_entry list \<times> db" where
  "detach_entries timesheetId entryIds d =
     (let hit = (\<lambda>te. te_id te \<in> set entryIds \<and> timesheet_id te = Some timesheetId);
          upd = (\<lambda>te. te\<lparr>timesheet_id := None, te_status := Draft\<rparr>)
      in (map upd (filter hit (time_entries d)),
          d\<lparr>time_entries := map (\<lambda>te. if hit te then upd te else te) (time_entries d)\<rparr>))"

definition removeTimeEntries :: "int \<Rightarrow> int list \<Rightarrow> bool io" where
  "removeTimeEntries timesheetId entryIds =
     (if length entryIds = 0 then return_io True
      else await (pool_query (detach_entries timesheetId entryIds)) (\<lambda>result.
           return_io (length result > 0)))"

section \<open>TimeEntryModel\<close>

text \<open>
  The fields of \<open>Partial<TimeEntryInput>\<close> that \<open>TimeEntryModel.update\<close> reads; a missing
  field reaches the statement as \<open>NULL\<close> and \<open>COALESCE\<close> keeps the column.
\<close>

record entry_updates =
  startTime :: "timestamp option"
  endTime :: "timestamp option"
  durationMinutes :: "int option"
  upd_description :: "string option"
  isBillable :: "bool option"
  upd_status :: "entry_status option"

definition coalesce :: "'a option \<Rightarrow> 'a \<Rightarrow> 'a" where
  "coalesce x old = (case x of Some v \<Rightarrow> v | None \<Rightarrow> old)"

definition coalesce_opt :: "'a option \<Rightarrow> 'a option \<Rightarrow> 'a option" where
  "coalesce_opt x old = (case x of Some v \<Rightarrow> Some v | None \<Rightarrow> old)"

definition update_entry :: "int \<Rightarrow> entry_updates \<Rightarrow> db \<Rightarrow> time_entry list \<times> db" where
  "update_entry i updates d =
     (let upd = (\<lambda>te. te\<lparr>start_time := coalesce (startTime updates) (start_time te),
                           end_time := coalesce_opt (endTime updates) (end_time te),
                           duration_minutes :=
                             coalesce_opt (durationMinutes updates) (duration_minutes te),
                           te_description :=
                             coalesce_opt (upd_description updates) (te_description te),
                           is_billable := coalesce (isBillable updates) (is_billable te),
                           te_status := coalesce (upd_status updates) (te_status te)\<rparr>)
      in (map upd (filter (\<lambda>te. te_id te = i) (time_entries d)),
          d\<lparr>time_entries := map (\<lambda>te. if te_id te = i then upd te else te) (time_entries d)\<rparr>))"

definition TimeEntry_update :: "int \<Rightarrow> entry_updates \<Rightarrow> time_entry option io" where
  "TimeEntry_update i updates =
     await (pool_query (update_entry i updates)) (\<lambda>rows.
     return_io (case rows of [] \<Rightarrow> None | r # _ \<Rightarrow> Some r))"

definition delete_entry :: "int \<Rightarrow> db \<Rightarrow> nat \<times> db" where
  "delete_entry i d =
     (length (filter (\<lambda>te. te_id te = i) (time_entries d)),
      d\<lparr>time_entries := filter (\<lambda>te. te_id te \<noteq> i) (time_entries d)\<rparr>)"

definition TimeEntry_delete :: "int \<Rightarrow> bool io" where
  "TimeEntry_delete i =
     await (pool_query (delete_entry i)) (\<lambda>rowCount. return_io (rowCount > 0))"

definition select_owned :: "int \<Rightarrow> int \<Rightarrow> db \<Rightarrow> nat \<times> db" where
  "select_owned entryId userId d =
     (length (filter (\<lambda>te. te_id te = entryId \<and> te_user_id te = userId) (time_entries d)), d)"

definition userOwnsEntry :: "int \<Rightarrow> int \<Rightarrow> bool io" where
  "userOwnsEntry entryId userId =
     await (pool_query (select_owned entryId userId)) (\<lambda>rowCount. return_io (rowCount > 0))"








section \<open>The controllers\<close>

text \<open>
  A request carries the authenticated user (\<open>req.user\<close>), the \<open>:id\<close> of the path as the
  string it is, whether the validators of the route left no error
  (\<open>validationResult(req).isEmpty()\<close>) and the body. A handler answers with a status code
  and a JSON value: \<open>res.json(x)\<close> is 200, the \<open>catch\<close> of every handler answers 500.

  \<open>parseInt(s, 10)\<close> skips leading white space (the ASCII one here), takes a sign and
  the longest run of decimal digits, and is \<open>NaN\<close> (here \<open>None\<close>) when there is no
  digit. The validators themselves (express-validator chains of the routes) are not
  modelled: a handler only reads whether they left an error.
\<close>

record 'b request =
  req_user_id :: int
  req_role :: role
  params_id :: string
  valid :: bool
  body :: 'b

datatype 'a reply = Json nat 'a | Message nat string | ValidationErrors nat

fun status_code :: "'a reply \<Rightarrow> nat" where
  "status_code (Json c x) = c"
| "status_code (Message c m) = c"
| "status_code (ValidationErrors c) = c"

definition is_digit :: "char \<Rightarrow> bool" where
  "is_digit c = (c \<in> set ''0123456789'')"

definition digit_val :: "char \<Rightarrow> nat" where
  "digit_val c = of_char c - 48"

definition is_space :: "char \<Rightarrow> bool" where
  "is_space c = (c \<in> {CHR '' '', CHR 0x09, CHR 0x0A, CHR 0x0B, CHR 0x0C, CHR 0x0D})"

definition digits_value :: "string \<Rightarrow> nat" where
  "digits_value ds = foldl (\<lambda>n c. 10 * n + digit_val c) 0 ds"

definition parseInt :: "string \<Rightarrow> int option" where
  "parseInt s =
     (let s1 = dropWhile is_space s;
          neg = (s1 \<noteq> [] \<and> hd s1 = CHR ''-'');
          s2 = (if s1 \<noteq> [] \<and> (hd s1 = CHR ''-'' \<or> hd s1 = CHR ''+'') then tl s1 else s1);
          ds = takeWhile is_digit s2
      in if ds = [] then None
         else Some (if neg then - int (digits_value ds) else int (digits_value ds)))"

definition catch_500 :: "string \<Rightarrow> 'a reply io \<Rightarrow> world \<Rightarrow> 'a reply \<times> world" where
  "catch_500 msg m w = (case m w of (Inl e, w') \<Rightarrow> (Message 500 msg, w') | (Inr r, w') \<Rightarrow> (r, w'))"

text \<open>controllers/time-entry.controller.ts: \<open>updateTimeEntry\<close> and \<open>deleteTimeEntry\<close>.\<close>

definition updateTimeEntry :: "entry_updates request \<Rightarrow> world \<Rightarrow> time_entry reply \<times> world" where
  "updateTimeEntry req =
     catch_500 ''Server error while updating time entry''
       (if \<not> valid req then return_io (ValidationErrors 400)
        else case parseInt (params_id req) of
          None \<Rightarrow> return_io (Message 400 ''Invalid time entry ID'')
        | Some entryId \<Rightarrow>
            await (userOwnsEntry entryId (req_user_id req)) (\<lambda>isOwner.
            if \<not> isOwner \<and> req_role req \<noteq> Admin
            then return_io (Message 403 ''Not authorized to update this time entry'')
            else if upd_status (body req) \<noteq> None \<and> upd_status (body req) \<noteq> Some Draft
                    \<and> req_role req \<noteq> Admin
            then return_io (Message 403 ''Only admins can change time entry status'')
            else await (TimeEntry_update entryId (body req)) (\<lambda>updatedEntry.
                 case updatedEntry of
                   None \<Rightarrow> return_io (Message 404 ''Time entry not found'')
                 | Some e \<Rightarrow> return_io (Json 200 e))))"

definition deleteTimeEntry :: "'b request \<Rightarrow> world \<Rightarrow> unit reply \<times> world" where
  "deleteTimeEntry req =
     catch_500 ''Server error while deleting time entry''
       (case parseInt (params_id req) of
          None \<Rightarrow> return_io (Message 400 ''Invalid time entry ID'')
        | Some entryId \<Rightarrow>
            await (userOwnsEntry entryId (req_user_id req)) (\<lambda>isOwner.
            if \<not> isOwner \<and> req_role req \<noteq> Admin
            then return_io (Message 403 ''Not authorized to delete this time entry'')
            else await (TimeEntry_delete entryId) (\<lambda>deleted.
                 if \<not> deleted then return_io (Message 404 ''Time entry not found'')
                 else return_io (Message 200 ''Time entry deleted successfully''))))"

text \<open>
  controllers/timesheet.controller.ts: \<open>updateTimesheet\<close>, \<open>submitTimesheet\<close>,
  \<open>approveTimesheet\<close> and \<open>rejectTimesheet\<close>. \<open>!notes\<close> holds for a missing and for an
  empty string.
\<close>

record timesheet_body =
  b_startDate :: "timestamp option"
  b_endDate :: "timestamp option"
  b_notes :: "string option"
  b_timeEntryIds :: "int list option"

definition updateTimesheet :: "timesheet_body request \<Rightarrow> world \<Rightarrow> full_timesheet reply \<times> world" where
  "updateTimesheet req =
     catch_500 ''Server error while updating timesheet''
       (if \<not> valid req then return_io (ValidationErrors 400)
        else case parseInt (params_id req) of
          None \<Rightarrow> return_io (Message 400 ''Invalid timesheet ID'')
        | Some timesheetId \<Rightarrow>
            await (Timesheet_findById timesheetId) (\<lambda>existingTimesheet.
            case existingTimesheet of
              None \<Rightarrow> return_io (Message 404 ''Timesheet not found'')
            | Some existing \<Rightarrow>
                if ts_user_id (fst existing) \<noteq> req_user_id req
                then return_io (Message 403 ''Not authorized to update this timesheet'')
                else if ts_status (fst existing) \<noteq> TsDraft
                then return_io (Message 400 ''Only draft timesheets can be updated'')
                else return_io (Json 200 existing)))"

definition submitTimesheet :: "timestamp \<Rightarrow> timesheet_body request \<Rightarrow> world \<Rightarrow> timesheet reply \<times> world" where
  "submitTimesheet now req =
     catch_500 ''Server error while submitting timesheet''
       (case parseInt (params_id req) of
          None \<Rightarrow> return_io (Message 400 ''Invalid timesheet ID'')
        | Some timesheetId \<Rightarrow>
            await (Timesheet_findById timesheetId) (\<lambda>found.
            case found of
              None \<Rightarrow> return_io (Message 404 ''Timesheet not found'')
            | Some existing \<Rightarrow>
                if ts_user_id (fst existing) \<noteq> req_user_id req
                then return_io (Message 403 ''Not authorized to submit this timesheet'')
                else if ts_status (fst existing) \<noteq> TsDraft
                then return_io (Message 400 ''Only draft timesheets can be submitted'')
                else await (Timesheet_updateStatus now timesheetId TsSubmitted (req_user_id req)
                              (b_notes (body req))) (\<lambda>updatedTimesheet.
                     case updatedTimesheet of
                       None \<Rightarrow> return_io (Message 404 ''Timesheet not found'')
                     | Some t \<Rightarrow> return_io (Json 200 t))))"

definition approveTimesheet :: "timestamp \<Rightarrow> timesheet_body request \<Rightarrow> world \<Rightarrow> timesheet reply \<times> world" where
  "approveTimesheet now req =
     catch_500 ''Server error while approving timesheet''
       (case parseInt (params_id req) of
          None \<Rightarrow> return_io (Message 400 ''Invalid timesheet ID'')
        | Some timesheetId \<Rightarrow>
            if req_role req \<noteq> Admin
            then return_io (Message 403 ''Only administrators can approve timesheets'')
            else await (Timesheet_updateStatus now timesheetId TsApproved (req_user_id req)
                          (b_notes (body req))) (\<lambda>updatedTimesheet.
                 case updatedTimesheet of
                   None \<Rightarrow> return_io (Message 404 ''Timesheet not found'')
                 | Some t \<Rightarrow> return_io (Json 200 t)))"

definition rejectTimesheet :: "timestamp \<Rightarrow> timesheet_body request \<Rightarrow> world \<Rightarrow> timesheet reply \<times> world" where
  "rejectTimesheet now req =
     catch_500 ''Server error while rejecting timesheet''
       (case parseInt (params_id req) of
          None \<Rightarrow> return_io (Message 400 ''Invalid timesheet ID'')
        | Some timesheetId \<Rightarrow>
            if req_role req \<noteq> Admin
            then return_io (Message 403 ''Only administrators can reject timesheets'')
            else if b_notes (body req) = None \<or> b_notes (body req) = Some []
            then return_io (Message 400 ''Rejection reason is required'')
            else await (Timesheet_updateStatus now timesheetId TsRejected (req_user_id req)
                          (b_notes (body req))) (\<lambda>updatedTimesheet.
                 case updatedTimesheet of
                   None \<Rightarrow> return_io (Message 404 ''Timesheet not found'')
                 | Some t \<Rightarrow> return_io (Json 200 t)))"

section \<open>Notions used in the statements\<close>

text \<open>
  \<open>refused w\<close>: the database refuses the next statement. \<open>refused_within n w\<close>: it
  refuses one of the next \<open>n\<close> statements. \<open>skip_faults n w\<close>: the world after \<open>n\<close>
  statements that changed nothing else.
\<close>

definition refused :: "world \<Rightarrow> bool" where
  "refused w = (faults w \<noteq> [] \<and> hd (faults w))"

definition refused_within :: "nat \<Rightarrow> world \<Rightarrow> bool" where
  "refused_within n w = (True \<in> set (take n (faults w)))"

definition skip_faults :: "nat \<Rightarrow> world \<Rightarrow> world" where
  "skip_faults n w = w\<lparr>faults := drop n (faults w)\<rparr>"

text \<open>
  The statements \<open>InvoiceModel.create\<close> sends up to and including \<open>COMMIT\<close>: the count
  of the month's invoices, the checkout of the client, \<open>BEGIN\<close>, the invoice, one insert
  per item and one update per item that lists time entries, \<open>COMMIT\<close>.
\<close>

definition item_stmts :: "item_input list \<Rightarrow> nat" where
  "item_stmts its = length its + length (filter (\<lambda>item. timeEntryIds item \<noteq> []) its)"

definition create_stmts :: "invoice_input \<Rightarrow> nat" where
  "create_stmts inp = 5 + item_stmts (items inp)"

text \<open>What a committed \<open>create\<close> leaves in the tables.\<close>

definition bill :: "int list \<Rightarrow> time_entry list \<Rightarrow> time_entry list" where
  "bill ids es = map (\<lambda>e. if te_id e \<in> set ids then e\<lparr>te_status := Billed\<rparr> else e) es"

definition item_row :: "int \<Rightarrow> int \<Rightarrow> item_input \<Rightarrow> invoice_item" where
  "item_row invoiceId k item =
     \<lparr>item_id = k, invoice_id = invoiceId, item_description = description item,
      item_quantity = quantity item, unit_price = unitPrice item,
      amount = quantity item * unitPrice item, time_entry_ids = timeEntryIds item\<rparr>"

fun item_rows :: "int \<Rightarrow> int \<Rightarrow> item_input list \<Rightarrow> invoice_item list" where
  "item_rows invoiceId k [] = []"
| "item_rows invoiceId k (item # its) = item_row invoiceId k item # item_rows invoiceId (k + 1) its"

definition month_count :: "nat \<Rightarrow> nat \<Rightarrow> db \<Rightarrow> nat" where
  "month_count y m d =
     length (filter (\<lambda>i. year (created_at i) = y \<and> month (created_at i) = m) (invoices d))"

definition number_of :: "nat \<Rightarrow> nat \<Rightarrow> nat \<Rightarrow> string" where
  "number_of y m k =
     ''INV-'' @ toString y @ padStart 2 CHR ''0'' (toString m) @ ''-'' @
     padStart 4 CHR ''0'' (toString k)"

definition new_invoice :: "timestamp \<Rightarrow> invoice_input \<Rightarrow> world \<Rightarrow> invoice" where
  "new_invoice now inp w =
     (let sub = (\<Sum>item\<leftarrow>items inp. quantity item * unitPrice item) in
      \<lparr>inv_id = invoice_seq w,
       invoice_number =
         number_of (year now) (month now) (month_count (year now) (month now) (tables w) + 1),
       client_id = clientId inp, issue_date = issueDate inp, due_date = dueDate inp,
       inv_status = InvDraft, subtotal = sub, tax_rate = taxRate inp,
       tax_amount = sub * (taxRate inp / 100), total = sub + sub * (taxRate inp / 100),
       inv_notes = inp_notes inp, created_at = now, paid_at = None\<rparr>)"

definition committed :: "timestamp \<Rightarrow> invoice_input \<Rightarrow> world \<Rightarrow> db" where
  "committed now inp w =
     (tables w)\<lparr>invoices := invoices (tables w) @ [new_invoice now inp w],
                invoice_items := invoice_items (tables w) @
                   item_rows (invoice_seq w) (invoice_item_seq w) (items inp),
                time_entries :=
                   bill (concat (map timeEntryIds (items inp))) (time_entries (tables w))\<rparr>"

text \<open>Worlds and inputs the statements are tried on.\<close>

definition t0 :: timestamp where
  "t0 = Timestamp 2024 3 5"

definition entry1 :: time_entry where
  "entry1 = \<lparr>te_id = 1, te_user_id = 10, te_task_id = 100, start_time = Timestamp 2024 2 1,
     end_time = None, duration_minutes = Some 60, te_description = None, is_billable = True,
     te_status = Approved, timesheet_id = Some 1\<rparr>"

definition entry2 :: time_entry where
  "entry2 = \<lparr>te_id = 2, te_user_id = 10, te_task_id = 101, start_time = Timestamp 2024 2 2,
     end_time = None, duration_minutes = Some 60, te_description = None, is_billable = True,
     te_status = Approved, timesheet_id = None\<rparr>"

definition sheet1 :: timesheet where
  "sheet1 = \<lparr>ts_id = 1, ts_user_id = 10, start_date = Timestamp 2024 2 1,
     end_date = Timestamp 2024 2 7, ts_status = TsDraft, ts_notes = None,
     approved_by = None, approved_at = None\<rparr>"

definition db0 :: db where
  "db0 = \<lparr>users = [\<lparr>u_id = 10, u_role = User\<rparr>, \<lparr>u_id = 20, u_role = Client\<rparr>,
                   \<lparr>u_id = 30, u_role = Admin\<rparr>, \<lparr>u_id = 11, u_role = User\<rparr>],
           projects = [\<lparr>p_id = 1, p_client_id = 20, hourly_rate = 50\<rparr>,
                       \<lparr>p_id = 2, p_client_id = 20, hourly_rate = 100\<rparr>],
           tasks = [\<lparr>t_id = 100, t_project_id = 1\<rparr>, \<lparr>t_id = 101, t_project_id = 2\<rparr>],
           time_entries = [entry1, entry2],
           timesheets = [sheet1],
           invoices = [], invoice_items = []\<rparr>"

definition w0 :: world where
  "w0 = \<lparr>tables = db0, txn = None, invoice_seq = 1, invoice_item_seq = 1, faults = []\<rparr>"

definition inp0 :: invoice_input where
  "inp0 = \<lparr>clientId = 20, issueDate = Timestamp 2024 3 1, dueDate = Timestamp 2024 4 1,
            taxRate = 10, inp_notes = None,
            items = [\<lparr>description = ''Design'', quantity = 2, unitPrice = 50, timeEntryIds = [1]\<rparr>,
                     \<lparr>description = ''Travel'', quantity = 1, unitPrice = 30, timeEntryIds = []\<rparr>]\<rparr>"

definition w_refused :: world where
  "w_refused = w0\<lparr>faults := [False, False, False, False, False, True]\<rparr>"




text \<open>
  Runs of \<open>addTimeEntries\<close> and \<open>removeTimeEntries\<close>, the timesheets an entry belongs to,
  and what \<open>TimesheetModel.updateStatus\<close> does to the entries of timesheet \<open>i\<close>.
\<close>

datatype sheet_op = Add int "int list" | Remove int "int list"

fun run_op :: "sheet_op \<Rightarrow> world \<Rightarrow> world" where
  "run_op (Add t ids) w = snd (addTimeEntries t ids w)"
| "run_op (Remove t ids) w = snd (removeTimeEntries t ids w)"

fun run_ops :: "sheet_op list \<Rightarrow> world \<Rightarrow> world" where
  "run_ops [] w = w"
| "run_ops (op # ops) w = run_ops ops (run_op op w)"

definition sheets_of :: "db \<Rightarrow> time_entry \<Rightarrow> timesheet list" where
  "sheets_of d te = filter (\<lambda>t. timesheet_id te = Some (ts_id t)) (timesheets d)"

definition cascade :: "timesheet_status \<Rightarrow> int \<Rightarrow> time_entry list \<Rightarrow> time_entry list" where
  "cascade status i es =
     (case status of
        TsApproved \<Rightarrow> map (\<lambda>te. if timesheet_id te = Some i then te\<lparr>te_status := Approved\<rparr> else te) es
      | TsRejected \<Rightarrow> map (\<lambda>te. if timesheet_id te = Some i then te\<lparr>te_status := Rejected\<rparr> else te) es
      | TsDraft \<Rightarrow> es
      | TsSubmitted \<Rightarrow> es)"


text \<open>
  Requests on time entry 1, which belongs to user 10, by user 11, who is not an admin:
  one that passed validation and one that did not.
\<close>

definition no_updates :: entry_updates where
  "no_updates = \<lparr>startTime = None, endTime = None, durationMinutes = Some 5,
     upd_description = None, isBillable = None, upd_status = None\<rparr>"

definition req_other :: "entry_updates request" where
  "req_other = \<lparr>req_user_id = 11, req_role = User, params_id = ''1'', valid = True,
     body = no_updates\<rparr>"

definition req_invalid :: "entry_updates request" where
  "req_invalid = req_other\<lparr>valid := False, body := no_updates\<lparr>durationMinutes := Some 0\<rparr>\<rparr>"

text \<open>
  Requests on timesheet 1, a draft of user 10: by its owner, with and without validation
  errors, and by the admin 30.
\<close>

definition sheet_body :: timesheet_body where
  "sheet_body = \<lparr>b_startDate = Some (Timestamp 2024 2 8), b_endDate = Some (Timestamp 2024 2 14),
     b_notes = Some ''second week'', b_timeEntryIds = Some [2]\<rparr>"

definition req_owner :: "timesheet_body request" where
  "req_owner = \<lparr>req_user_id = 10, req_role = User, params_id = ''1'', valid = True,
     body = sheet_body\<rparr>"

definition req_owner_invalid :: "timesheet_body request" where
  "req_owner_invalid = req_owner\<lparr>valid := False\<rparr>"

definition req_admin :: "timesheet_body request" where
  "req_admin = \<lparr>req_user_id = 30, req_role = Admin, params_id = ''1'', valid = True,
     body = sheet_body\<rparr>"















section \<open>Statements and transactions: basic facts\<close>

lemma next_fault_eq:
  "next_fault w = (refused w, skip_faults (Suc 0) w)"
  by (cases "faults w") (simp_all add: next_fault_def refused_def skip_faults_def)

lemma refused_within_0 [simp]: "\<not> refused_within 0 w"
  by (simp add: refused_within_def)

lemma refused_within_Suc:
  "refused_within (Suc n) w \<longleftrightarrow> refused w \<or> refused_within n (skip_faults (Suc 0) w)"
  by (cases "faults w") (auto simp: refused_within_def refused_def skip_faults_def)

lemma refused_within_add:
  "refused_within (m + n) w \<longleftrightarrow> refused_within m w \<or> refused_within n (skip_faults m w)"
  by (auto simp: refused_within_def skip_faults_def take_add)

lemma refused_within_1: "refused_within (Suc 0) w = refused w"
  by (simp add: refused_within_Suc)

lemma refused_within_Suc_end:
  "refused_within (Suc n) w \<longleftrightarrow> refused_within n w \<or> refused (skip_faults n w)"
  using refused_within_add [of n "Suc 0" w] by (simp add: refused_within_1)

lemma no_faults_refused [simp]:
  "faults w = [] \<Longrightarrow> \<not> refused w"
  "faults w = [] \<Longrightarrow> \<not> refused_within n w"
  "faults w = [] \<Longrightarrow> skip_faults n w = w"
  by (simp_all add: refused_def refused_within_def skip_faults_def)

lemma skip_faults_fields [simp]:
  "tables (skip_faults n w) = tables w" "txn (skip_faults n w) = txn w"
  "invoice_seq (skip_faults n w) = invoice_seq w"
  "invoice_item_seq (skip_faults n w) = invoice_item_seq w"
  "faults (skip_faults n w) = drop n (faults w)"
  by (simp_all add: skip_faults_def)

lemma skip_faults_skip [simp]: "skip_faults m (skip_faults n w) = skip_faults (n + m) w"
  by (simp add: skip_faults_def add.commute)

lemma skip_faults_upd [simp]:
  "skip_faults n (w\<lparr>txn := x\<rparr>) = (skip_faults n w)\<lparr>txn := x\<rparr>"
  "skip_faults n (w\<lparr>tables := y\<rparr>) = (skip_faults n w)\<lparr>tables := y\<rparr>"
  "skip_faults n (w\<lparr>invoice_seq := k\<rparr>) = (skip_faults n w)\<lparr>invoice_seq := k\<rparr>"
  "skip_faults n (w\<lparr>invoice_item_seq := k\<rparr>) = (skip_faults n w)\<lparr>invoice_item_seq := k\<rparr>"
  by (simp_all add: skip_faults_def)

lemma refused_upd [simp]:
  "refused (w\<lparr>txn := x\<rparr>) = refused w"
  "refused (w\<lparr>tables := y\<rparr>) = refused w"
  "refused (w\<lparr>invoice_seq := k\<rparr>) = refused w"
  "refused (w\<lparr>invoice_item_seq := k\<rparr>) = refused w"
  by (simp_all add: refused_def)

lemma refused_within_upd [simp]:
  "refused_within n (w\<lparr>txn := x\<rparr>) = refused_within n w"
  "refused_within n (w\<lparr>tables := y\<rparr>) = refused_within n w"
  "refused_within n (w\<lparr>invoice_seq := k\<rparr>) = refused_within n w"
  "refused_within n (w\<lparr>invoice_item_seq := k\<rparr>) = refused_within n w"
  by (simp_all add: refused_within_def)

lemma pool_connect_eq:
  "pool_connect w =
     (if refused w then (Inl DbError, skip_faults (Suc 0) w) else (Inr (), skip_faults (Suc 0) w))"
  by (simp add: pool_connect_def next_fault_eq)

lemma pool_query_eq:
  "pool_query stmt w =
     (if refused w then (Inl DbError, skip_faults (Suc 0) w)
      else (Inr (fst (stmt (tables w))),
            (skip_faults (Suc 0) w)\<lparr>tables := snd (stmt (tables w))\<rparr>))"
  by (simp add: pool_query_def next_fault_eq split: prod.splits)

lemma client_query_txn:
  "txn w = Some t \<Longrightarrow> client_query stmt w =
     (if refused w then (Inl DbError, skip_faults (Suc 0) w)
      else (Inr (fst (stmt t)), (skip_faults (Suc 0) w)\<lparr>txn := Some (snd (stmt t))\<rparr>))"
  by (simp add: client_query_def next_fault_eq split: prod.splits)

lemma client_query_auto:
  "txn w = None \<Longrightarrow> client_query stmt w =
     (if refused w then (Inl DbError, skip_faults (Suc 0) w)
      else (Inr (fst (stmt (tables w))),
            (skip_faults (Suc 0) w)\<lparr>tables := snd (stmt (tables w))\<rparr>))"
  by (simp add: client_query_def next_fault_eq split: prod.splits)

lemma sql_begin_eq:
  "sql_begin w =
     (if refused w then (Inl DbError, skip_faults (Suc 0) w)
      else (Inr (), (skip_faults (Suc 0) w)\<lparr>txn := Some (tables w)\<rparr>))"
  by (simp add: sql_begin_def next_fault_eq)

lemma sql_commit_eq:
  "txn w = Some t \<Longrightarrow> sql_commit w =
     (if refused w then (Inl DbError, skip_faults (Suc 0) w)
      else (Inr (), (skip_faults (Suc 0) w)\<lparr>tables := t, txn := None\<rparr>))"
  by (simp add: sql_commit_def next_fault_eq)

section \<open>InvoiceModel.create: the loop over the items\<close>

lemma mark_billed_bill: "mark_billed ids d = ((), d\<lparr>time_entries := bill ids (time_entries d)\<rparr>)"
  by (simp add: mark_billed_def bill_def)

lemma bill_bill: "bill b (bill a es) = bill (a @ b) es"
  by (induction es) (auto simp: bill_def)

lemma bill_Nil [simp]: "bill [] es = es"
  by (simp add: bill_def)

lemma item_stmts_Cons:
  "item_stmts (item # its) = (if timeEntryIds item \<noteq> [] then 2 else 1) + item_stmts its"
  by (simp add: item_stmts_def)

lemma add_items_frame:
  "txn w = Some t \<Longrightarrow>
   tables (snd (add_items i its w)) = tables w \<and> txn (snd (add_items i its w)) \<noteq> None"
proof (induction its arbitrary: w t)
  case Nil
  then show ?case by (simp add: return_io_def)
next
  case (Cons item its)
  show ?case
    using Cons.prems Cons.IH
    by (auto simp add: await_def insert_item_def Let_def client_query_txn return_io_def
          split: prod.splits sum.splits)
qed

lemma add_items_refused:
  "txn w = Some t \<Longrightarrow> refused_within (item_stmts its) w \<Longrightarrow>
   fst (add_items i its w) = Inl DbError"
proof (induction its arbitrary: w t)
  case Nil
  then show ?case by (simp add: item_stmts_def)
next
  case (Cons item its)
  show ?case
    using Cons.prems Cons.IH
    by (auto simp add: await_def insert_item_def Let_def client_query_txn return_io_def
          item_stmts_Cons refused_within_Suc numeral_2_eq_2
          split: prod.splits sum.splits if_splits)
qed

lemma add_items_done:
  "txn w = Some t \<Longrightarrow> \<not> refused_within (item_stmts its) w \<Longrightarrow>
   add_items i its w =
     (Inr (), (skip_faults (item_stmts its) w)
        \<lparr>txn := Some (t\<lparr>invoice_items := invoice_items t @ item_rows i (invoice_item_seq w) its,
                        time_entries := bill (concat (map timeEntryIds its)) (time_entries t)\<rparr>),
         invoice_item_seq := invoice_item_seq w + int (length its)\<rparr>)"
proof (induction its arbitrary: w t)
  case Nil
  then show ?case by (simp add: item_stmts_def return_io_def skip_faults_def)
next
  case (Cons item its)
  show ?case
    using Cons.prems
    by (auto simp add: await_def insert_item_def Let_def client_query_txn return_io_def
          item_stmts_Cons refused_within_Suc numeral_2_eq_2 Cons.IH item_row_def
          mark_billed_bill bill_bill
          split: prod.splits sum.splits if_splits)
qed

section \<open>InvoiceModel.create: the transaction\<close>

lemma foldl_sum: "foldl (\<lambda>s x. s + f x) a xs = (a::rat) + (\<Sum>x\<leftarrow>xs. f x)"
  by (induction xs arbitrary: a) (simp_all add: add.assoc)

lemma findById_frame:
  "txn w = None \<Longrightarrow> tables (snd (Invoice_findById i w)) = tables w \<and> txn (snd (Invoice_findById i w)) = None"
  by (auto simp add: Invoice_findById_def await_def pool_connect_eq client_query_auto
        select_invoice_def select_items_def return_io_def split: list.splits)

lemma insert_invoice_eq:
  "txn w = Some t \<Longrightarrow> insert_invoice now num inp sub tax tot w =
     (let row = \<lparr>inv_id = invoice_seq w, invoice_number = num, client_id = clientId inp,
                issue_date = issueDate inp, due_date = dueDate inp, inv_status = InvDraft,
                subtotal = sub, tax_rate = taxRate inp, tax_amount = tax, total = tot,
                inv_notes = inp_notes inp, created_at = now, paid_at = None\<rparr>
      in if refused w then (Inl DbError, (skip_faults (Suc 0) w)\<lparr>invoice_seq := invoice_seq w + 1\<rparr>)
         else (Inr row, (skip_faults (Suc 0) w)\<lparr>invoice_seq := invoice_seq w + 1,
                 txn := Some (t\<lparr>invoices := invoices t @ [row]\<rparr>)\<rparr>))"
  by (simp add: insert_invoice_def Let_def client_query_txn)

lemma refused_within_body:
  "refused_within (Suc (Suc (Suc k))) w \<longleftrightarrow>
     refused w \<or> refused (skip_faults (Suc 0) w) \<or> refused_within k (skip_faults (Suc (Suc 0)) w)
     \<or> refused (skip_faults (Suc (Suc k)) w)"
  by (auto simp add: refused_within_Suc_end [of "Suc (Suc k)"] refused_within_Suc [of "Suc k"]
       refused_within_Suc [of k])

lemma create_try_done:
  assumes "txn w = None" and "\<not> refused_within (Suc (Suc (Suc (item_stmts (items inp))))) w"
  shows "create_try now num inp sub tax tot w =
     Invoice_findById (invoice_seq w)
       ((skip_faults (Suc (Suc (Suc (item_stmts (items inp))))) w)
          \<lparr>tables := (tables w)
              \<lparr>invoices := invoices (tables w) @
                  [\<lparr>inv_id = invoice_seq w, invoice_number = num, client_id = clientId inp,
                    issue_date = issueDate inp, due_date = dueDate inp, inv_status = InvDraft,
                    subtotal = sub, tax_rate = taxRate inp, tax_amount = tax, total = tot,
                    inv_notes = inp_notes inp, created_at = now, paid_at = None\<rparr>],
               invoice_items := invoice_items (tables w) @
                  item_rows (invoice_seq w) (invoice_item_seq w) (items inp),
               time_entries :=
                  bill (concat (map timeEntryIds (items inp))) (time_entries (tables w))\<rparr>,
           txn := None,
           invoice_seq := invoice_seq w + 1,
           invoice_item_seq := invoice_item_seq w + int (length (items inp))\<rparr>)"
proof -
  let ?k = "item_stmts (items inp)"
  from assms(2) have ok: "\<not> refused w" "\<not> refused (skip_faults (Suc 0) w)"
    "\<not> refused_within ?k (skip_faults (Suc (Suc 0)) w)"
    "\<not> refused (skip_faults (Suc (Suc ?k)) w)"
    by (simp_all add: refused_within_body)
  show ?thesis
    using assms(1) ok
    apply (simp add: create_try_def await_def sql_begin_eq insert_invoice_eq Let_def
        add_items_done sql_commit_eq)
    apply (rule arg_cong [where f = "Invoice_findById (invoice_seq w)"])
    apply (rule world.equality; simp)
    done
qed

lemma create_try_refused:
  assumes "txn w = None" and "refused_within (Suc (Suc (Suc (item_stmts (items inp))))) w"
  shows "fst (create_try now num inp sub tax tot w) = Inl DbError \<and>
         tables (snd (create_try now num inp sub tax tot w)) = tables w"
proof -
  let ?k = "item_stmts (items inp)"
  let ?row = "\<lparr>inv_id = invoice_seq w, invoice_number = num, client_id = clientId inp,
                issue_date = issueDate inp, due_date = dueDate inp, inv_status = InvDraft,
                subtotal = sub, tax_rate = taxRate inp, tax_amount = tax, total = tot,
                inv_notes = inp_notes inp, created_at = now, paid_at = None\<rparr>"
  let ?w2 = "(skip_faults (Suc (Suc 0)) w)\<lparr>invoice_seq := invoice_seq w + 1,
                 txn := Some ((tables w)\<lparr>invoices := invoices (tables w) @ [?row]\<rparr>)\<rparr>"
  from assms(2) consider
      (at_begin) "refused w"
    | (at_invoice) "\<not> refused w" "refused (skip_faults (Suc 0) w)"
    | (at_items) "\<not> refused w" "\<not> refused (skip_faults (Suc 0) w)"
        "refused_within ?k (skip_faults (Suc (Suc 0)) w)"
    | (at_commit) "\<not> refused w" "\<not> refused (skip_faults (Suc 0) w)"
        "\<not> refused_within ?k (skip_faults (Suc (Suc 0)) w)"
        "refused (skip_faults (Suc (Suc ?k)) w)"
    by (auto simp add: refused_within_body)
  then show ?thesis
  proof cases
    case at_begin
    then show ?thesis
      by (simp add: create_try_def await_def sql_begin_eq)
  next
    case at_invoice
    then show ?thesis
      using assms(1)
      by (simp add: create_try_def await_def sql_begin_eq insert_invoice_eq Let_def)
  next
    case at_items
    have t2: "txn ?w2 = Some ((tables w)\<lparr>invoices := invoices (tables w) @ [?row]\<rparr>)"
      by simp
    have r2: "refused_within ?k ?w2"
      using at_items(3) by simp
    have "fst (add_items (invoice_seq w) (items inp) ?w2) = Inl DbError"
      by (rule add_items_refused [OF t2 r2])
    moreover have "tables (snd (add_items (invoice_seq w) (items inp) ?w2)) = tables ?w2"
      using add_items_frame [OF t2] by blast
    ultimately show ?thesis
      using assms(1) at_items(1,2)
      by (auto simp add: create_try_def await_def sql_begin_eq insert_invoice_eq Let_def
            split: prod.splits sum.splits)
  next
    case at_commit
    then show ?thesis
      using assms(1)
      by (simp add: create_try_def await_def sql_begin_eq insert_invoice_eq Let_def
            add_items_done sql_commit_eq)
  qed
qed

lemma create_stmts_Suc:
  "create_stmts inp = Suc (Suc (Suc (Suc (Suc (item_stmts (items inp))))))"
  by (simp add: create_stmts_def)

lemma generateInvoiceNumber_eq:
  "generateInvoiceNumber now w =
     (if refused w then (Inl DbError, skip_faults (Suc 0) w)
      else (Inr (number_of (year now) (month now)
                   (month_count (year now) (month now) (tables w) + 1)),
            skip_faults (Suc 0) w))"
  by (simp add: generateInvoiceNumber_def Let_def await_def pool_query_eq count_invoices_def
        return_io_def number_of_def month_count_def)

lemma create_tables:
  assumes "txn w = None"
  shows "tables (snd (Invoice_create now inp w)) =
           (if refused_within (create_stmts inp) w then tables w else committed now inp w)
         \<and> txn (snd (Invoice_create now inp w)) = None
         \<and> (refused_within (create_stmts inp) w \<longrightarrow> fst (Invoice_create now inp w) = Inl DbError)"
proof -
  let ?k = "item_stmts (items inp)"
  let ?n = "Suc (Suc (Suc ?k))"
  let ?w2 = "skip_faults (Suc (Suc 0)) w"
  let ?sub = "foldl (\<lambda>sum item. sum + quantity item * unitPrice item) 0 (items inp)"
  let ?num = "number_of (year now) (month now) (month_count (year now) (month now) (tables w) + 1)"
  let ?body = "create_try now ?num inp ?sub (?sub * (taxRate inp / 100))
                 (?sub + ?sub * (taxRate inp / 100))"
  have t2: "txn ?w2 = None" using assms by simp
  have split: "refused_within (create_stmts inp) w \<longleftrightarrow>
      refused w \<or> refused (skip_faults (Suc 0) w) \<or> refused_within ?n ?w2"
    by (simp add: create_stmts_Suc refused_within_Suc [of "Suc (Suc (Suc (Suc ?k)))"]
          refused_within_Suc [of "Suc (Suc (Suc ?k))"])
  consider (at_number) "refused w"
    | (at_connect) "\<not> refused w" "refused (skip_faults (Suc 0) w)"
    | (in_txn) "\<not> refused w" "\<not> refused (skip_faults (Suc 0) w)" "refused_within ?n ?w2"
    | (none) "\<not> refused w" "\<not> refused (skip_faults (Suc 0) w)" "\<not> refused_within ?n ?w2"
    by blast
  then show ?thesis
  proof cases
    case at_number
    then show ?thesis
      using assms
      by (simp add: Invoice_create_def Let_def await_def generateInvoiceNumber_eq split)
  next
    case at_connect
    then show ?thesis
      using assms
      by (simp add: Invoice_create_def Let_def await_def generateInvoiceNumber_eq pool_connect_eq split)
  next
    case in_txn
    have "fst (?body ?w2) = Inl DbError \<and> tables (snd (?body ?w2)) = tables ?w2"
      by (rule create_try_refused [OF t2 in_txn(3)])
    then show ?thesis
      using assms in_txn
      by (auto simp add: Invoice_create_def Let_def await_def generateInvoiceNumber_eq pool_connect_eq
            split try_catch_def sql_rollback_def throw_def split: prod.splits sum.splits)
  next
    case none
    let ?W = "(skip_faults ?n ?w2)
          \<lparr>tables := (tables ?w2)
              \<lparr>invoices := invoices (tables ?w2) @
                  [\<lparr>inv_id = invoice_seq ?w2, invoice_number = ?num, client_id = clientId inp,
                    issue_date = issueDate inp, due_date = dueDate inp, inv_status = InvDraft,
                    subtotal = ?sub, tax_rate = taxRate inp,
                    tax_amount = ?sub * (taxRate inp / 100),
                    total = ?sub + ?sub * (taxRate inp / 100),
                    inv_notes = inp_notes inp, created_at = now, paid_at = None\<rparr>],
               invoice_items := invoice_items (tables ?w2) @
                  item_rows (invoice_seq ?w2) (invoice_item_seq ?w2) (items inp),
               time_entries :=
                  bill (concat (map timeEntryIds (items inp))) (time_entries (tables ?w2))\<rparr>,
           txn := None,
           invoice_seq := invoice_seq ?w2 + 1,
           invoice_item_seq := invoice_item_seq ?w2 + int (length (items inp))\<rparr>"
    have body: "?body ?w2 = Invoice_findById (invoice_seq ?w2) ?W"
      by (rule create_try_done [OF t2 none(3)])
    have W: "txn ?W = None" "tables ?W = committed now inp w"
      by (simp_all add: committed_def new_invoice_def Let_def foldl_sum)
    have "tables (snd (Invoice_findById (invoice_seq ?w2) ?W)) = tables ?W \<and>
          txn (snd (Invoice_findById (invoice_seq ?w2) ?W)) = None"
      by (rule findById_frame [OF W(1)])
    then show ?thesis
      using assms none body W(2)
      by (auto simp add: Invoice_create_def Let_def await_def generateInvoiceNumber_eq pool_connect_eq
            split try_catch_def sql_rollback_def throw_def split: prod.splits sum.splits)
  qed
qed

lemma item_rows_length [simp]: "length (item_rows i k its) = length its"
  by (induction its arbitrary: k) simp_all



section \<open>C1: the totals of a created invoice\<close>



section \<open>C5: create is all or nothing\<close>

text \<open>
  Claim C5. \<open>InvoiceModel.create\<close> is atomic. Called with no transaction open, it leaves
  none open. If the database refuses any statement up to and including \<open>COMMIT\<close> (the
  statements inside the transaction, and the two before it), the call throws and the
  tables are exactly as before: no invoice, no item, no entry marked billed. Otherwise
  the tables hold the invoice row, all of its item rows and the \<open>billed\<close> status of every
  listed time entry together, whether or not the final \<open>findById\<close> succeeds. (The
  sequences of the ids are outside the transaction, as in PostgreSQL.)
\<close>

theorem create_atomic:
  assumes "txn w = None"
  shows "txn (snd (Invoice_create now inp w)) = None \<and>
         (if refused_within (create_stmts inp) w
          then fst (Invoice_create now inp w) = Inl DbError \<and> tables (snd (Invoice_create now inp w)) = tables w
          else tables (snd (Invoice_create now inp w)) = committed now inp w)"
  using create_tables [OF assms, of now inp] by simp

theorem create_atomic_witness:
  "txn w_refused = None \<and> refused_within (create_stmts inp0) w_refused \<and>
   fst (Invoice_create t0 inp0 w_refused) = Inl DbError \<and>
   tables (snd (Invoice_create t0 inp0 w_refused)) = db0 \<and>
   txn w0 = None \<and> \<not> refused_within (create_stmts inp0) w0 \<and>
   map invoice_number (invoices (tables (snd (Invoice_create t0 inp0 w0)))) = [''INV-202403-0001''] \<and>
   map amount (invoice_items (tables (snd (Invoice_create t0 inp0 w0)))) = [100, 30] \<and>
   map te_status (time_entries (tables (snd (Invoice_create t0 inp0 w0)))) = [Billed, Approved]"
proof -
  have a: "txn w_refused = None" and b: "refused_within (create_stmts inp0) w_refused"
    and e: "tables w_refused = db0"
    by (simp_all add: w_refused_def w0_def refused_within_def create_stmts_def item_stmts_def
          inp0_def)
  have c: "txn w0 = None" and d: "\<not> refused_within (create_stmts inp0) w0"
    by (simp_all add: w0_def)
  have f: "map invoice_number (invoices (committed t0 inp0 w0)) = [''INV-202403-0001'']"
    "map amount (invoice_items (committed t0 inp0 w0)) = [100, 30]"
    "map te_status (time_entries (committed t0 inp0 w0)) = [Billed, Approved]"
    by code_simp+
  show ?thesis
    using create_atomic [OF a, of t0 inp0] create_atomic [OF c, of t0 inp0] a b c d e f
    by simp
qed

section \<open>Decimal numerals: parseInt reads back what String writes\<close>











section \<open>InvoiceModel.create when every statement is answered\<close>





section \<open>C6: invoice numbers\<close>



section \<open>C9: entries and their timesheet\<close>

lemma addTimeEntries_tables:
  "tables (snd (addTimeEntries t ids w)) =
     (tables w)\<lparr>time_entries :=
        map (\<lambda>te. if \<not> refused w \<and> te_id te \<in> set ids \<and> timesheet_id te = None
                  then te\<lparr>timesheet_id := Some t, te_status := Submitted\<rparr> else te)
          (time_entries (tables w))\<rparr>"
  by (simp add: addTimeEntries_def await_def pool_query_eq attach_entries_def Let_def return_io_def)

lemma removeTimeEntries_tables:
  "tables (snd (removeTimeEntries t ids w)) =
     (tables w)\<lparr>time_entries :=
        map (\<lambda>te. if \<not> refused w \<and> te_id te \<in> set ids \<and> timesheet_id te = Some t
                  then te\<lparr>timesheet_id := None, te_status := Draft\<rparr> else te)
          (time_entries (tables w))\<rparr>"
  by (simp add: removeTimeEntries_def await_def pool_query_eq detach_entries_def Let_def return_io_def)

lemma run_ops_timesheets: "timesheets (tables (run_ops ops w)) = timesheets (tables w)"
proof (induction ops arbitrary: w)
  case Nil
  then show ?case by simp
next
  case (Cons op ops)
  then show ?case
    by (cases op) (simp_all add: addTimeEntries_tables removeTimeEntries_tables)
qed

lemma sheets_of_distinct:
  assumes "distinct (map ts_id (timesheets d))"
  shows "length (sheets_of d te) \<le> 1"
proof (cases "timesheet_id te")
  case None
  then show ?thesis by (simp add: sheets_of_def)
next
  case (Some i)
  have "length (filter (\<lambda>t. ts_id t = i) ts) \<le> 1" if "distinct (map ts_id ts)" for ts
    using that by (induction ts) (auto simp add: filter_empty_conv image_iff)
  moreover have "sheets_of d te = filter (\<lambda>t. ts_id t = i) (timesheets d)"
    using Some by (auto simp add: sheets_of_def intro: filter_cong)
  ultimately show ?thesis
    using assms by simp
qed

text \<open>
  Claim C9. \<open>addTimeEntries\<close> changes exactly the listed entries whose \<open>timesheet_id\<close> is
  \<open>NULL\<close>, setting their timesheet and the status \<open>submitted\<close> (nothing when the
  statement is refused), so an entry that is attached stays as it is;
  \<open>removeTimeEntries\<close> changes exactly the listed entries attached to the given
  timesheet, detaching them with status \<open>draft\<close>. With timesheet ids unique (the
  primary key), every entry belongs to at most one timesheet after any run of the two
  operations.
\<close>

theorem timesheet_membership:
  assumes "distinct (map ts_id (timesheets (tables w)))"
  shows "tables (snd (addTimeEntries t ids w)) =
           (tables w)\<lparr>time_entries :=
              map (\<lambda>te. if \<not> refused w \<and> te_id te \<in> set ids \<and> timesheet_id te = None
                        then te\<lparr>timesheet_id := Some t, te_status := Submitted\<rparr> else te)
                (time_entries (tables w))\<rparr>
         \<and> tables (snd (removeTimeEntries t ids w)) =
           (tables w)\<lparr>time_entries :=
              map (\<lambda>te. if \<not> refused w \<and> te_id te \<in> set ids \<and> timesheet_id te = Some t
                        then te\<lparr>timesheet_id := None, te_status := Draft\<rparr> else te)
                (time_entries (tables w))\<rparr>
         \<and> (\<forall>te \<in> set (time_entries (tables w)). timesheet_id te \<noteq> None \<longrightarrow>
               te \<in> set (time_entries (tables (snd (addTimeEntries t ids w)))))
         \<and> (\<forall>te \<in> set (time_entries (tables (run_ops ops w))).
               length (sheets_of (tables (run_ops ops w)) te) \<le> 1)"
proof -
  have moved: "\<forall>te \<in> set (time_entries (tables w)). timesheet_id te \<noteq> None \<longrightarrow>
               te \<in> set (time_entries (tables (snd (addTimeEntries t ids w))))"
    by (auto simp add: addTimeEntries_tables image_iff intro!: bexI)
  have "distinct (map ts_id (timesheets (tables (run_ops ops w))))"
    using assms by (simp add: run_ops_timesheets)
  then have "\<forall>te \<in> set (time_entries (tables (run_ops ops w))).
               length (sheets_of (tables (run_ops ops w)) te) \<le> 1"
    using sheets_of_distinct by blast
  with moved show ?thesis
    by (simp only: addTimeEntries_tables removeTimeEntries_tables simp_thms)
qed


theorem timesheet_membership_witness:
  "distinct (map ts_id (timesheets (tables w0))) \<and>
   map timesheet_id (time_entries (tables w0)) = [Some 1, None] \<and>
   map timesheet_id (time_entries (tables (snd (addTimeEntries 2 [1, 2] w0)))) = [Some 1, Some 2] \<and>
   map te_status (time_entries (tables (snd (addTimeEntries 2 [1, 2] w0)))) = [Approved, Submitted] \<and>
   map timesheet_id (time_entries (tables (snd (removeTimeEntries 1 [1, 2] w0)))) = [None, None] \<and>
   map te_status (time_entries (tables (snd (removeTimeEntries 1 [1, 2] w0)))) = [Draft, Approved]"
proof -
  have a: "distinct (map ts_id (timesheets (tables w0)))"
    by (simp add: w0_def db0_def)
  have b: "\<not> refused w0" by (simp add: w0_def)
  have c: "time_entries (tables w0) = [entry1, entry2]" by (simp add: w0_def db0_def)
  show ?thesis
    using timesheet_membership [OF a, of 2 "[1, 2]" "[]"] timesheet_membership [OF a, of 1 "[1, 2]" "[]"] a b
    by (simp add: c entry1_def entry2_def)
qed

section \<open>C3: approval and rejection cascade to the entries\<close>

lemma filter_nonempty: "\<exists>x \<in> set xs. P x \<Longrightarrow> filter P xs \<noteq> []"
  by (simp add: filter_empty_conv)

lemma updateStatus_no_faults:
  assumes "faults w = []" and "txn w = None" and "\<exists>t \<in> set (timesheets (tables w)). ts_id t = i"
  shows "Timesheet_updateStatus now i status by_id notes w =
     (Inr (Some (hd (fst (set_timesheet_status now status notes by_id i (tables w))))),
      w\<lparr>tables := (snd (set_timesheet_status now status notes by_id i (tables w)))
           \<lparr>time_entries := cascade status i (time_entries (tables w))\<rparr>\<rparr>)"
proof -
  have ne: "filter (\<lambda>t. ts_id t = i) (timesheets (tables w)) \<noteq> []"
    using assms(3) by (simp add: filter_empty_conv)
  then obtain r rs where rows: "fst (set_timesheet_status now status notes by_id i (tables w)) = r # rs"
    by (cases "filter (\<lambda>t. ts_id t = i) (timesheets (tables w))") (auto simp add: set_timesheet_status_def Let_def)
  have te: "time_entries (snd (set_timesheet_status now status notes by_id i (tables w))) = time_entries (tables w)"
    by (simp add: set_timesheet_status_def Let_def)
  show ?thesis
    using assms(1,2) rows te
    apply (cases status)
    apply (simp_all add: Timesheet_updateStatus_def updateStatus_try_def await_def try_catch_def
        pool_connect_eq sql_begin_eq client_query_txn sql_commit_eq return_io_def cascade_def
        set_entries_status_def Let_def)
    done
qed


text \<open>
  Claim C3. For an existing timesheet and a database that answers every statement,
  \<open>TimesheetModel.updateStatus\<close> with \<open>approved\<close> (\<open>rejected\<close>) sets the status of every
  time entry whose \<open>timesheet_id\<close> is the timesheet's id to \<open>approved\<close> (\<open>rejected\<close>) and
  leaves the other entries as they are; with \<open>draft\<close> or \<open>submitted\<close> it leaves all time
  entries as they are. The call returns the updated timesheet, which has the new status.
\<close>

theorem updateStatus_cascades:
  assumes "faults w = []" and "txn w = None"
    and "\<exists>t \<in> set (timesheets (tables w)). ts_id t = i"
  shows "time_entries (tables (snd (Timesheet_updateStatus now i status by_id notes w))) =
           (case status of
              TsApproved \<Rightarrow>
                map (\<lambda>te. if timesheet_id te = Some i then te\<lparr>te_status := Approved\<rparr> else te)
                  (time_entries (tables w))
            | TsRejected \<Rightarrow>
                map (\<lambda>te. if timesheet_id te = Some i then te\<lparr>te_status := Rejected\<rparr> else te)
                  (time_entries (tables w))
            | TsDraft \<Rightarrow> time_entries (tables w)
            | TsSubmitted \<Rightarrow> time_entries (tables w))
         \<and> (\<exists>t. fst (Timesheet_updateStatus now i status by_id notes w) = Inr (Some t)
                \<and> ts_id t = i \<and> ts_status t = status)"
proof -
  let ?rows = "fst (set_timesheet_status now status notes by_id i (tables w))"
  have run: "Timesheet_updateStatus now i status by_id notes w =
     (Inr (Some (hd ?rows)),
      w\<lparr>tables := (snd (set_timesheet_status now status notes by_id i (tables w)))
           \<lparr>time_entries := cascade status i (time_entries (tables w))\<rparr>\<rparr>)"
    by (rule updateStatus_no_faults [OF assms])
  have "filter (\<lambda>t. ts_id t = i) (timesheets (tables w)) \<noteq> []"
    using assms(3) by (simp add: filter_empty_conv)
  then obtain t ts where f: "filter (\<lambda>t. ts_id t = i) (timesheets (tables w)) = t # ts"
    by (cases "filter (\<lambda>t. ts_id t = i) (timesheets (tables w))") auto
  then have "t \<in> set (filter (\<lambda>t. ts_id t = i) (timesheets (tables w)))" by simp
  then have "ts_id t = i" by simp
  with f have "ts_id (hd ?rows) = i \<and> ts_status (hd ?rows) = status"
    by (simp add: set_timesheet_status_def Let_def)
  with run show ?thesis
    by (simp add: cascade_def)
qed

theorem updateStatus_cascades_witness:
  "faults w0 = [] \<and> txn w0 = None \<and> map ts_id (timesheets (tables w0)) = [1] \<and>
   map timesheet_id (time_entries (tables w0)) = [Some 1, None] \<and>
   map te_status (time_entries (tables w0)) = [Approved, Approved] \<and>
   map te_status (time_entries (tables (snd (Timesheet_updateStatus t0 1 TsRejected 30 None w0)))) =
     [Rejected, Approved] \<and>
   map te_status (time_entries (tables (snd (Timesheet_updateStatus t0 1 TsSubmitted 10 None w0)))) =
     [Approved, Approved]"
proof -
  have a: "faults w0 = []" "txn w0 = None" by (simp_all add: w0_def)
  have b: "\<exists>t \<in> set (timesheets (tables w0)). ts_id t = 1"
    by (simp add: w0_def db0_def sheet1_def)
  have c: "time_entries (tables w0) = [entry1, entry2]" "timesheets (tables w0) = [sheet1]"
    by (simp_all add: w0_def db0_def)
  show ?thesis
    using updateStatus_cascades [OF a b, of t0 TsRejected 30 None]
      updateStatus_cascades [OF a b, of t0 TsSubmitted 10 None] a
    by (simp add: c entry1_def entry2_def sheet1_def)
qed

section \<open>C7: who may change a time entry\<close>

lemma distinct_filter_key:
  "distinct (map f xs) \<Longrightarrow> x \<in> set xs \<Longrightarrow> filter (\<lambda>y. f y = f x) xs = [x]"
proof (induction xs)
  case Nil
  then show ?case by simp
next
  case (Cons a xs)
  show ?case
  proof (cases "a = x")
    case True
    have "filter (\<lambda>y. f y = f x) xs = []"
      using Cons.prems(1) True by (auto simp add: filter_empty_conv image_iff)
    with True show ?thesis by simp
  next
    case False
    then have "x \<in> set xs" using Cons.prems(2) by simp
    moreover have "f a \<noteq> f x" using Cons.prems(1) \<open>x \<in> set xs\<close> by (auto simp add: image_iff)
    ultimately show ?thesis using Cons by simp
  qed
qed

lemma userOwnsEntry_eq:
  "userOwnsEntry e u w =
     (if refused w then (Inl DbError, skip_faults (Suc 0) w)
      else (Inr (\<exists>te \<in> set (time_entries (tables w)). te_id te = e \<and> te_user_id te = u),
            skip_faults (Suc 0) w))"
  by (auto simp add: userOwnsEntry_def await_def pool_query_eq select_owned_def return_io_def
        filter_empty_conv)

lemma not_owner:
  assumes "te \<in> set (time_entries d)" and "distinct (map te_id (time_entries d))"
    and "te_user_id te \<noteq> u"
  shows "\<not> (\<exists>e \<in> set (time_entries d). te_id e = te_id te \<and> te_user_id e = u)"
proof
  assume "\<exists>e \<in> set (time_entries d). te_id e = te_id te \<and> te_user_id e = u"
  then obtain e where e: "e \<in> set (time_entries d)" "te_id e = te_id te" "te_user_id e = u"
    by blast
  have "e \<in> set (filter (\<lambda>y. te_id y = te_id te) (time_entries d))" using e by simp
  then have "e = te" using distinct_filter_key [OF assms(2,1)] by simp
  with e(3) assms(3) show False by simp
qed

text \<open>
  Claim C7, amended. For a time entry (entry ids are unique, being the primary key) and
  a requesting user who is neither its owner nor an admin, \<open>updateTimeEntry\<close> and
  \<open>deleteTimeEntry\<close> leave the tables unchanged.
  \<open>updateTimeEntry\<close> answers 403 when the request passed validation and the ownership
  query was answered, 400 when the request failed validation (the check comes first) and
  500 when the query failed; \<open>deleteTimeEntry\<close>, which does not look at the validation
  result, answers 403, or 500 when the query failed.
\<close>

theorem non_owner_cannot_change_entry:
  assumes "te \<in> set (time_entries (tables w))"
    and "distinct (map te_id (time_entries (tables w)))"
    and "parseInt (params_id req) = Some (te_id te)"
    and "te_user_id te \<noteq> req_user_id req" and "req_role req \<noteq> Admin"
  shows "tables (snd (updateTimeEntry req w)) = tables w
       \<and> status_code (fst (updateTimeEntry req w)) =
           (if \<not> valid req then 400 else if refused w then 500 else 403)
       \<and> tables (snd (deleteTimeEntry req w)) = tables w
       \<and> status_code (fst (deleteTimeEntry req w)) = (if refused w then 500 else 403)"
proof -
  have no: "\<not> (\<exists>e \<in> set (time_entries (tables w)). te_id e = te_id te \<and> te_user_id e = req_user_id req)"
    by (rule not_owner [OF assms(1,2,4)])
  show ?thesis
    using assms(3,5) no
    by (simp add: updateTimeEntry_def deleteTimeEntry_def catch_500_def await_def userOwnsEntry_eq
          return_io_def)
qed


theorem non_owner_cannot_change_entry_witness:
  "entry1 \<in> set (time_entries (tables w0)) \<and>
   distinct (map te_id (time_entries (tables w0))) \<and>
   parseInt (params_id req_other) = Some (te_id entry1) \<and>
   te_user_id entry1 \<noteq> req_user_id req_other \<and> req_role req_other \<noteq> Admin \<and>
   tables (snd (updateTimeEntry req_other w0)) = tables w0 \<and>
   status_code (fst (updateTimeEntry req_other w0)) = 403 \<and>
   tables (snd (deleteTimeEntry req_other w0)) = tables w0 \<and>
   status_code (fst (deleteTimeEntry req_other w0)) = 403"
proof -
  have a: "entry1 \<in> set (time_entries (tables w0))"
    "distinct (map te_id (time_entries (tables w0)))"
    by (simp_all add: w0_def db0_def entry1_def entry2_def)
  have b: "parseInt (params_id req_other) = Some (te_id entry1)"
    by code_simp
  have c: "te_user_id entry1 \<noteq> req_user_id req_other" "req_role req_other \<noteq> Admin"
    "valid req_other" "\<not> refused w0"
    by (simp_all add: entry1_def req_other_def w0_def)
  show ?thesis
    using non_owner_cannot_change_entry [OF a b c(1,2)] a b c
    by simp
qed

text \<open>
  Claim C7 as stated fails: user 11 is neither the owner of entry 1 nor an admin, and
  a request of theirs that failed validation (a duration of 0 minutes, where the route
  asks for at least 1) is answered 400, not 403.
\<close>

theorem non_owner_update_counterexample:
  "te_user_id entry1 = 10 \<and> req_user_id req_invalid = 11 \<and> req_role req_invalid = User \<and>
   parseInt (params_id req_invalid) = Some (te_id entry1) \<and>
   status_code (fst (updateTimeEntry req_invalid w0)) = 400 \<and>
   status_code (fst (updateTimeEntry req_invalid w0)) \<noteq> 403"
  by code_simp

section \<open>C10: updateTimesheet changes nothing\<close>

lemma Timesheet_findById_eq:
  "Timesheet_findById i w =
     (if refused w then (Inl DbError, skip_faults (Suc 0) w)
      else (Inr (case filter (\<lambda>t. ts_id t = i) (timesheets (tables w)) of
                   [] \<Rightarrow> None
                 | t # _ \<Rightarrow> Some (t, filter (\<lambda>te. timesheet_id te = Some (ts_id t))
                                     (time_entries (tables w)))),
            skip_faults (Suc 0) w))"
  by (simp add: Timesheet_findById_def await_def pool_query_eq select_timesheet_def return_io_def
        split: list.splits)

text \<open>
  Claim C10, amended. For a draft timesheet owned by the requesting user (timesheet ids
  are unique, being the primary key), \<open>updateTimesheet\<close> changes no table, and its
  answer does not depend on the body (\<open>startDate\<close>, \<open>endDate\<close>, \<open>notes\<close>,
  \<open>timeEntryIds\<close>): it returns the timesheet as \<open>findById\<close> read it, with its
  entries, and status 200 when the request passed validation; a request with validation
  errors is answered 400 (the check comes first), and a failed \<open>findById\<close> 500.
\<close>

theorem updateTimesheet_noop:
  assumes "t \<in> set (timesheets (tables w))"
    and "distinct (map ts_id (timesheets (tables w)))"
    and "parseInt (params_id req) = Some (ts_id t)"
    and "ts_user_id t = req_user_id req" and "ts_status t = TsDraft"
  shows "tables (snd (updateTimesheet req w)) = tables w
       \<and> fst (updateTimesheet req w) =
           (if \<not> valid req then ValidationErrors 400
            else if refused w then Message 500 ''Server error while updating timesheet''
            else Json 200 (t, filter (\<lambda>te. timesheet_id te = Some (ts_id t))
                                (time_entries (tables w))))
       \<and> updateTimesheet (req\<lparr>body := b\<rparr>) w = updateTimesheet req w"
proof -
  have "filter (\<lambda>y. ts_id y = ts_id t) (timesheets (tables w)) = [t]"
    by (rule distinct_filter_key [OF assms(2,1)])
  then show ?thesis
    using assms(3,4,5)
    by (simp add: updateTimesheet_def catch_500_def await_def Timesheet_findById_eq return_io_def)
qed

theorem updateTimesheet_noop_witness:
  "sheet1 \<in> set (timesheets (tables w0)) \<and> distinct (map ts_id (timesheets (tables w0))) \<and>
   parseInt (params_id req_owner) = Some (ts_id sheet1) \<and>
   ts_user_id sheet1 = req_user_id req_owner \<and> ts_status sheet1 = TsDraft \<and>
   tables (snd (updateTimesheet req_owner w0)) = tables w0 \<and>
   fst (updateTimesheet req_owner w0) = Json 200 (sheet1, [entry1])"
proof -
  have a: "sheet1 \<in> set (timesheets (tables w0))" "distinct (map ts_id (timesheets (tables w0)))"
    by (simp_all add: w0_def db0_def)
  have b: "parseInt (params_id req_owner) = Some (ts_id sheet1)"
    by code_simp
  have c: "ts_user_id sheet1 = req_user_id req_owner" "ts_status sheet1 = TsDraft"
    by (simp_all add: sheet1_def req_owner_def)
  have d: "valid req_owner" "\<not> refused w0" "time_entries (tables w0) = [entry1, entry2]"
    by (simp_all add: req_owner_def w0_def db0_def)
  show ?thesis
    using updateTimesheet_noop [OF a b c] a b c
    by (simp add: d entry1_def entry2_def sheet1_def)
qed

text \<open>
  Claim C10 as stated fails: a request of the owner of the draft timesheet 1 that failed
  validation is answered 400, not 200.
\<close>

theorem updateTimesheet_counterexample:
  "ts_user_id sheet1 = req_user_id req_owner_invalid \<and> ts_status sheet1 = TsDraft \<and>
   parseInt (params_id req_owner_invalid) = Some (ts_id sheet1) \<and>
   status_code (fst (updateTimesheet req_owner_invalid w0)) = 400 \<and>
   status_code (fst (updateTimesheet req_owner_invalid w0)) \<noteq> 200"
  by code_simp

section \<open>C4: the status lifecycle of a timesheet\<close>

text \<open>
  Claim C4 does not hold of the code: \<open>approveTimesheet\<close> and \<open>rejectTimesheet\<close> never
  read the current status. An admin's approve (or reject) request on timesheet 1, which
  is a draft, is answered 200 and makes it approved (rejected, with its entries). The
  lemma after it: approval succeeds from every status.
\<close>

theorem approve_draft_timesheet:
  "map ts_status (timesheets (tables w0)) = [TsDraft] \<and>
   req_role req_admin = Admin \<and>
   status_code (fst (approveTimesheet t0 req_admin w0)) = 200 \<and>
   map ts_status (timesheets (tables (snd (approveTimesheet t0 req_admin w0)))) = [TsApproved] \<and>
   status_code (fst (rejectTimesheet t0 req_admin w0)) = 200 \<and>
   map ts_status (timesheets (tables (snd (rejectTimesheet t0 req_admin w0)))) = [TsRejected] \<and>
   map te_status (time_entries (tables (snd (rejectTimesheet t0 req_admin w0)))) =
     [Rejected, Approved]"
  by code_simp

lemma approve_any_status:
  assumes "faults w = []" and "txn w = None"
    and "t \<in> set (timesheets (tables w))"
    and "parseInt (params_id req) = Some (ts_id t)" and "req_role req = Admin"
  shows "status_code (fst (approveTimesheet now req w)) = 200
       \<and> (\<forall>s \<in> set (timesheets (tables (snd (approveTimesheet now req w)))).
             ts_id s = ts_id t \<longrightarrow> ts_status s = TsApproved)"
proof -
  have ex: "\<exists>s \<in> set (timesheets (tables w)). ts_id s = ts_id t"
    using assms(3) by blast
  show ?thesis
    using assms(4,5)
    by (auto simp add: approveTimesheet_def catch_500_def await_def return_io_def
          updateStatus_no_faults [OF assms(1,2) ex] set_timesheet_status_def Let_def)
qed

text \<open>
  The submit half of the lifecycle: for the owner of an existing timesheet and a database
  that answers, \<open>submitTimesheet\<close> answers 200 and sets the status to \<open>submitted\<close>, leaving
  the time entries alone, when the timesheet is a draft; otherwise it answers 400 and
  changes nothing.
\<close>

theorem submit_only_from_draft:
  assumes "faults w = []" and "txn w = None"
    and "t \<in> set (timesheets (tables w))"
    and "distinct (map ts_id (timesheets (tables w)))"
    and "parseInt (params_id req) = Some (ts_id t)"
    and "ts_user_id t = req_user_id req"
  shows "if ts_status t = TsDraft
         then status_code (fst (submitTimesheet now req w)) = 200 \<and>
              map ts_status (timesheets (tables (snd (submitTimesheet now req w)))) =
                map (\<lambda>s. if ts_id s = ts_id t then TsSubmitted else ts_status s)
                  (timesheets (tables w)) \<and>
              time_entries (tables (snd (submitTimesheet now req w))) = time_entries (tables w)
         else status_code (fst (submitTimesheet now req w)) = 400 \<and>
              tables (snd (submitTimesheet now req w)) = tables w"
proof -
  have ex: "\<exists>s \<in> set (timesheets (tables w)). ts_id s = ts_id t"
    using assms(3) by blast
  have one: "filter (\<lambda>y. ts_id y = ts_id t) (timesheets (tables w)) = [t]"
    by (rule distinct_filter_key [OF assms(4,3)])
  have st: "map ts_status (timesheets (snd (set_timesheet_status now TsSubmitted nts u (ts_id t) (tables w)))) =
      map (\<lambda>s. if ts_id s = ts_id t then TsSubmitted else ts_status s) (timesheets (tables w))" for nts u
    by (simp add: set_timesheet_status_def Let_def comp_def if_distrib cong: if_cong)
  show ?thesis
    using assms(1,2,5,6) one st
    by (auto simp add: submitTimesheet_def catch_500_def await_def return_io_def
          Timesheet_findById_eq updateStatus_no_faults [OF assms(1,2) ex] cascade_def)
qed

theorem submit_only_from_draft_witness:
  "faults w0 = [] \<and> txn w0 = None \<and> sheet1 \<in> set (timesheets (tables w0)) \<and>
   distinct (map ts_id (timesheets (tables w0))) \<and>
   parseInt (params_id req_owner) = Some (ts_id sheet1) \<and>
   ts_user_id sheet1 = req_user_id req_owner \<and> ts_status sheet1 = TsDraft \<and>
   status_code (fst (submitTimesheet t0 req_owner w0)) = 200 \<and>
   map ts_status (timesheets (tables (snd (submitTimesheet t0 req_owner w0)))) = [TsSubmitted]"
proof -
  have a: "faults w0 = []" "txn w0 = None" by (simp_all add: w0_def)
  have b: "sheet1 \<in> set (timesheets (tables w0))" "distinct (map ts_id (timesheets (tables w0)))"
    by (simp_all add: w0_def db0_def)
  have c: "parseInt (params_id req_owner) = Some (ts_id sheet1)"
    by code_simp
  have d: "ts_user_id sheet1 = req_user_id req_owner" "ts_status sheet1 = TsDraft"
    by (simp_all add: sheet1_def req_owner_def)
  have e: "timesheets (tables w0) = [sheet1]" by (simp add: w0_def db0_def)
  show ?thesis
    using submit_only_from_draft [OF a b c d(1), of t0] a b c d
    by (simp add: e)
qed

section \<open>C8: billable hours use the rate of the first group\<close>








section \<open>C2: how often a time entry is billed\<close>











end
